theory Spec2Isabelle
  imports Complex_Main
begin

section \<open>Values of the host language\<close>

text \<open>
  The library is generic in \<open>T\<close>, and the type parameter is erased when the program runs,
  so a container can be handed any value of the language. The container code looks at a
  value in two ways only: the loose comparison with \<open>null\<close> (\<open>value == null\<close>,
  \<open>value != null\<close>) and the truthiness test of \<open>if (value)\<close>. Instances of
  \<open>Optional\<close> are immutable (the field is \<open>private readonly\<close>), so an instance is
  modelled by its identity together with the content of its field \<open>value\<close>; two
  references are the same object exactly when the identities agree.
\<close>

datatype jsnum = NaN | Infinity bool | NegZero | Num rat

datatype jsval =
    JNull
  | JUndefined
  | JBool bool
  | JNum jsnum
  | JBigInt int
  | JStr string
  | JObj nat
  | JOptional Optional
and Optional = Optional (ident: nat) (val: jsval)

text \<open>\<open>JObj\<close> stands for any other object (array, function, plain object), by identity.\<close>

text \<open>The loose comparison \<open>v == null\<close>: true of \<open>null\<close> and of \<open>undefined\<close> only.\<close>

fun nullish :: "jsval \<Rightarrow> bool" where
  "nullish JNull = True"
| "nullish JUndefined = True"
| "nullish _ = False"

text \<open>The conversion to boolean that \<open>if (v)\<close> and \<open>v ? a : b\<close> perform.\<close>

fun truthy_num :: "jsnum \<Rightarrow> bool" where
  "truthy_num NaN = False"
| "truthy_num (Infinity _) = True"
| "truthy_num NegZero = False"
| "truthy_num (Num q) = (q \<noteq> 0)"

fun truthy :: "jsval \<Rightarrow> bool" where
  "truthy JNull = False"
| "truthy JUndefined = False"
| "truthy (JBool b) = b"
| "truthy (JNum n) = truthy_num n"
| "truthy (JBigInt i) = (i \<noteq> 0)"
| "truthy (JStr s) = (s \<noteq> [])"
| "truthy (JObj _) = True"
| "truthy (JOptional _) = True"

section \<open>Failures\<close>

text \<open>
  Modelled from the spec: the class \<open>NullPointerException\<close> is imported by
  \<open>Objects\<close> but is not among the sources; the spec describes it as a simple error kind
  signalling that a required value was null. \<open>Objects.requireNonNull\<close> constructs it
  without a message. \<open>NoSuchElementException\<close> carries its message. \<open>TypeError\<close> is
  what the language raises when something that is not a function is called, and
  \<open>Thrown\<close> is any other value a callback throws.
\<close>

datatype error =
    NullPointerException
  | NoSuchElementException string
  | TypeError
  | Thrown jsval

section \<open>State and callbacks\<close>

text \<open>
  The state holds the number of \<open>Optional\<close> instances constructed so far (the next
  fresh identity) and the log of the callback invocations made by the container's own
  methods, each entry being the argument list of one invocation.

  A callback parameter is \<open>null\<close>, \<open>undefined\<close> or a function. A function receives
  its arguments and may construct instances itself, so it transforms the instance
  counter; it returns a value or throws.
\<close>

record state =
  allocated :: nat
  calls :: "jsval list list"

datatype callback =
    CbNull
  | CbUndefined
  | Fn "jsval list \<Rightarrow> nat \<Rightarrow> (error + jsval) \<times> nat"

definition invoke :: "callback \<Rightarrow> jsval list \<Rightarrow> state \<Rightarrow> (error + jsval) \<times> state" where
  "invoke f args s =
     (case f of
        Fn g \<Rightarrow> (case g args (allocated s) of
                   (r, n) \<Rightarrow> (r, \<lparr>allocated = n, calls = calls s @ [args]\<rparr>))
      | _ \<Rightarrow> (Inl TypeError, s))"

section \<open>Objects.requireNonNull\<close>

text \<open>
  The one generic function of the source is used at values and at callbacks; the model
  has one copy for each.
\<close>

definition requireNonNull :: "jsval \<Rightarrow> error + jsval" where
  "requireNonNull v = (if nullish v then Inl NullPointerException else Inr v)"

fun requireNonNullFn :: "callback \<Rightarrow> error + callback" where
  "requireNonNullFn CbNull = Inl NullPointerException"
| "requireNonNullFn CbUndefined = Inl NullPointerException"
| "requireNonNullFn (Fn g) = Inr (Fn g)"

section \<open>The richer Optional\<close>

text \<open>The private constructor: the argument is stored only when it is truthy.\<close>

definition new_Optional :: "jsval \<Rightarrow> state \<Rightarrow> Optional \<times> state" where
  "new_Optional v s =
     (Optional (allocated s) (if truthy v then v else JNull),
      s\<lparr>allocated := Suc (allocated s)\<rparr>)"

text \<open>
  Class initialisation runs \<open>new Optional<any>(null)\<close> once, before any other
  instance exists, and keeps the result in the static field \<open>EMPTY\<close>.
\<close>

definition boot :: state where
  "boot = \<lparr>allocated = 0, calls = []\<rparr>"

definition EMPTY :: Optional where
  "EMPTY = fst (new_Optional JNull boot)"

definition init :: state where
  "init = snd (new_Optional JNull boot)"

definition initialised :: "state \<Rightarrow> bool" where
  "initialised s = (ident EMPTY < allocated s)"

definition Optional_empty :: Optional where
  "Optional_empty = EMPTY"

definition Optional_of :: "jsval \<Rightarrow> state \<Rightarrow> (error + Optional) \<times> state" where
  "Optional_of v s =
     (case requireNonNull v of
        Inl e \<Rightarrow> (Inl e, s)
      | Inr w \<Rightarrow> (case new_Optional w s of (opt, s') \<Rightarrow> (Inr opt, s')))"

definition Optional_ofNullable :: "jsval \<Rightarrow> state \<Rightarrow> (error + Optional) \<times> state" where
  "Optional_ofNullable v s =
     (if nullish v then (Inr Optional_empty, s) else Optional_of v s)"

definition Optional_get :: "Optional \<Rightarrow> error + jsval" where
  "Optional_get this =
     (if nullish (val this) then Inl (NoSuchElementException ''No value present.'')
      else Inr (val this))"

definition Optional_isPresent :: "Optional \<Rightarrow> bool" where
  "Optional_isPresent this = (\<not> nullish (val this))"

definition Optional_isEmpty :: "Optional \<Rightarrow> bool" where
  "Optional_isEmpty this = nullish (val this)"

definition Optional_ifPresent :: "Optional \<Rightarrow> callback \<Rightarrow> state \<Rightarrow> (error + unit) \<times> state" where
  "Optional_ifPresent this action s =
     (if \<not> nullish (val this)
      then (case invoke action [val this] s of
              (Inl e, s') \<Rightarrow> (Inl e, s')
            | (Inr _, s') \<Rightarrow> (Inr (), s'))
      else (Inr (), s))"

definition Optional_ifPresentOrElse ::
    "Optional \<Rightarrow> callback \<Rightarrow> callback \<Rightarrow> state \<Rightarrow> (error + unit) \<times> state" where
  "Optional_ifPresentOrElse this action actionOnEmpty s =
     (case (if \<not> nullish (val this) then invoke action [val this] s
            else invoke actionOnEmpty [] s) of
        (Inl e, s') \<Rightarrow> (Inl e, s')
      | (Inr _, s') \<Rightarrow> (Inr (), s'))"

definition Optional_filter :: "Optional \<Rightarrow> callback \<Rightarrow> state \<Rightarrow> (error + Optional) \<times> state" where
  "Optional_filter this predicate s =
     (case requireNonNullFn predicate of
        Inl e \<Rightarrow> (Inl e, s)
      | Inr _ \<Rightarrow>
          if \<not> Optional_isPresent this then (Inr this, s)
          else (case invoke predicate [val this] s of
                  (Inl e, s') \<Rightarrow> (Inl e, s')
                | (Inr b, s') \<Rightarrow> (Inr (if truthy b then this else Optional_empty), s')))"

definition Optional_map :: "Optional \<Rightarrow> callback \<Rightarrow> state \<Rightarrow> (error + Optional) \<times> state" where
  "Optional_map this callback s =
     (if nullish (val this) then (Inr Optional_empty, s)
      else (case invoke callback [val this] s of
              (Inl e, s') \<Rightarrow> (Inl e, s')
            | (Inr r, s') \<Rightarrow> Optional_ofNullable r s'))"

text \<open>
  \<open>flatMap\<close> and \<open>or\<close> hand back whatever the callback returned once it has passed
  \<open>requireNonNull\<close>; nothing checks that it is an \<open>Optional\<close>, so the result is a
  value.
\<close>

definition Optional_flatMap :: "Optional \<Rightarrow> callback \<Rightarrow> state \<Rightarrow> (error + jsval) \<times> state" where
  "Optional_flatMap this mapper s =
     (case requireNonNullFn mapper of
        Inl e \<Rightarrow> (Inl e, s)
      | Inr _ \<Rightarrow>
          if \<not> Optional_isPresent this then (Inr (JOptional Optional_empty), s)
          else (case invoke mapper [val this] s of
                  (Inl e, s') \<Rightarrow> (Inl e, s')
                | (Inr r, s') \<Rightarrow> (requireNonNull r, s')))"

definition Optional_or :: "Optional \<Rightarrow> callback \<Rightarrow> state \<Rightarrow> (error + jsval) \<times> state" where
  "Optional_or this supplier s =
     (case requireNonNullFn supplier of
        Inl e \<Rightarrow> (Inl e, s)
      | Inr _ \<Rightarrow>
          if \<not> Optional_isPresent this then (Inr (JOptional this), s)
          else (case invoke supplier [] s of
                  (Inl e, s') \<Rightarrow> (Inl e, s')
                | (Inr r, s') \<Rightarrow> (requireNonNull r, s')))"

definition Optional_orElse :: "Optional \<Rightarrow> jsval \<Rightarrow> jsval" where
  "Optional_orElse this other = (if \<not> nullish (val this) then val this else other)"

definition Optional_orElseGet :: "Optional \<Rightarrow> callback \<Rightarrow> state \<Rightarrow> (error + jsval) \<times> state" where
  "Optional_orElseGet this supplier s =
     (if \<not> nullish (val this) then (Inr (val this), s)
      else (case invoke supplier [] s of
              (Inl e, s') \<Rightarrow> (Inl e, s')
            | (Inr r, s') \<Rightarrow> (requireNonNull r, s')))"

definition Optional_orElseThrow :: "Optional \<Rightarrow> error + jsval" where
  "Optional_orElseThrow this =
     (if nullish (val this) then Inl (NoSuchElementException ''No value present'')
      else Inr (val this))"

definition Optional_orElseThrowSpecified ::
    "Optional \<Rightarrow> callback \<Rightarrow> state \<Rightarrow> (error + jsval) \<times> state" where
  "Optional_orElseThrowSpecified this supplier s =
     (if \<not> nullish (val this) then (Inr (val this), s)
      else (case invoke supplier [] s of
              (Inl e, s') \<Rightarrow> (Inl e, s')
            | (Inr r, s') \<Rightarrow> (Inl (Thrown r), s')))"

section \<open>The minimal Optional (src/util/Optional.ts)\<close>

text \<open>
  The second class of the same name. Its constructor takes an optional argument, and
  its \<open>EMPTY\<close> is built by \<open>new Optional<any>()\<close>, that is from \<open>undefined\<close>.
\<close>

definition Min_new_Optional :: "jsval \<Rightarrow> state \<Rightarrow> Optional \<times> state" where
  "Min_new_Optional v s =
     (Optional (allocated s) (if truthy v then v else JNull),
      s\<lparr>allocated := Suc (allocated s)\<rparr>)"

definition Min_EMPTY :: Optional where
  "Min_EMPTY = fst (Min_new_Optional JUndefined boot)"

definition Min_init :: state where
  "Min_init = snd (Min_new_Optional JUndefined boot)"

definition Min_empty :: Optional where
  "Min_empty = Min_EMPTY"

definition Min_of :: "jsval \<Rightarrow> state \<Rightarrow> (error + Optional) \<times> state" where
  "Min_of v s = (case Min_new_Optional v s of (opt, s') \<Rightarrow> (Inr opt, s'))"

definition Min_ofNullable :: "jsval \<Rightarrow> state \<Rightarrow> (error + Optional) \<times> state" where
  "Min_ofNullable v s = (if nullish v then (Inr Min_empty, s) else Min_of v s)"

definition Min_get :: "Optional \<Rightarrow> error + jsval" where
  "Min_get this =
     (if nullish (val this) then Inl (NoSuchElementException ''No value present.'')
      else Inr (val this))"

definition Min_isPresent :: "Optional \<Rightarrow> bool" where
  "Min_isPresent this = (\<not> nullish (val this))"

definition Min_ifPresent :: "Optional \<Rightarrow> callback \<Rightarrow> state \<Rightarrow> (error + unit) \<times> state" where
  "Min_ifPresent this callback s =
     (if \<not> nullish (val this)
      then (case invoke callback [val this] s of
              (Inl e, s') \<Rightarrow> (Inl e, s')
            | (Inr _, s') \<Rightarrow> (Inr (), s'))
      else (Inr (), s))"

definition Min_map :: "Optional \<Rightarrow> callback \<Rightarrow> state \<Rightarrow> (error + Optional) \<times> state" where
  "Min_map this callback s =
     (if nullish (val this) then (Inr Min_empty, s)
      else (case invoke callback [val this] s of
              (Inl e, s') \<Rightarrow> (Inl e, s')
            | (Inr r, s') \<Rightarrow> Min_ofNullable r s'))"

definition Min_orElse :: "Optional \<Rightarrow> jsval \<Rightarrow> jsval" where
  "Min_orElse this other = (if \<not> nullish (val this) then val this else other)"

section \<open>Basic facts\<close>

lemma EMPTY_eq: "EMPTY = Optional 0 JNull"
  by (simp add: EMPTY_def new_Optional_def boot_def)

lemma init_eq: "init = \<lparr>allocated = Suc 0, calls = []\<rparr>"
  by (simp add: init_def new_Optional_def boot_def)

lemma initialised_init: "initialised init"
  by (simp add: initialised_def EMPTY_eq init_eq)

lemma Min_EMPTY_eq: "Min_EMPTY = Optional 0 JNull"
  by (simp add: Min_EMPTY_def Min_new_Optional_def boot_def)

lemma Min_init_eq: "Min_init = \<lparr>allocated = Suc 0, calls = []\<rparr>"
  by (simp add: Min_init_def Min_new_Optional_def boot_def)

lemma invoke_Fn:
  "g args (allocated s) = (r, n) \<Longrightarrow>
   invoke (Fn g) args s = (r, \<lparr>allocated = n, calls = calls s @ [args]\<rparr>)"
  by (simp add: invoke_def)

text \<open>
  Apart from \<open>of\<close> at a null argument, the minimal class computes what the richer one
  does, operation by operation.
\<close>

lemma Min_ofNullable_eq: "Min_ofNullable = Optional_ofNullable"
  by (intro ext) (simp add: Min_ofNullable_def Optional_ofNullable_def Min_empty_def Optional_empty_def
      Min_EMPTY_eq EMPTY_eq Min_of_def Optional_of_def Min_new_Optional_def new_Optional_def
      requireNonNull_def)

lemma minimal_agrees_elsewhere:
  "Min_empty = Optional_empty"
  "\<not> nullish v \<Longrightarrow> Min_of v s = Optional_of v s"
  "Min_get c = Optional_get c"
  "Min_isPresent c = Optional_isPresent c"
  "Min_ifPresent c f s = Optional_ifPresent c f s"
  "Min_map c f s = Optional_map c f s"
  "Min_orElse c d = Optional_orElse c d"
  "Min_init = init"
  by (simp_all add: Min_empty_def Optional_empty_def Min_EMPTY_eq EMPTY_eq Min_of_def
      Optional_of_def Min_new_Optional_def new_Optional_def requireNonNull_def
      Min_ofNullable_eq Min_get_def Optional_get_def
      Min_isPresent_def Optional_isPresent_def Min_ifPresent_def Optional_ifPresent_def
      Min_map_def Optional_map_def Min_orElse_def Optional_orElse_def Min_init_eq init_eq
      split: prod.splits sum.splits)

section \<open>of(null)\<close>

text \<open>
  Claim C5. \<open>of(null)\<close> fails with a NullPointerException; it never returns a container
  (and constructs none: the state is unchanged). The same holds for \<open>undefined\<close>, which
  the loose comparison of \<open>requireNonNull\<close> treats as null.
\<close>

theorem of_null_fails:
  "Optional_of JNull s = (Inl NullPointerException, s) \<and>
   Optional_of JUndefined s = (Inl NullPointerException, s) \<and>
   (\<forall>opt s'. Optional_of JNull s \<noteq> (Inr opt, s'))"
  by (simp add: Optional_of_def requireNonNull_def)

theorem of_null_fails_witness:
  "Optional_of JNull init = (Inl NullPointerException, init)"
  using of_null_fails [of init] by simp

section \<open>of at a falsy value\<close>

text \<open>
  Claim C2. The claim: for every non-null \<open>v\<close>, \<open>of(v)\<close> is present and
  \<open>of(v).get()\<close> is \<open>v\<close>, also for \<open>0\<close>, the empty string and \<open>false\<close>. The
  constructor tests \<open>if (value)\<close>, so at these three values the instance it builds holds
  \<open>null\<close>: \<open>isPresent()\<close> is false and \<open>get()\<close> throws.
\<close>

theorem of_zero_is_absent:
  "\<not> nullish (JNum (Num 0)) \<and>
   Optional_of (JNum (Num 0)) init = (Inr (Optional 1 JNull), \<lparr>allocated = 2, calls = []\<rparr>) \<and>
   Optional_of (JStr '''') init = (Inr (Optional 1 JNull), \<lparr>allocated = 2, calls = []\<rparr>) \<and>
   Optional_of (JBool False) init = (Inr (Optional 1 JNull), \<lparr>allocated = 2, calls = []\<rparr>) \<and>
   Optional_isPresent (Optional 1 JNull) = False \<and>
   Optional_get (Optional 1 JNull) = Inl (NoSuchElementException ''No value present.'')"
  by (simp add: Optional_of_def Optional_isPresent_def Optional_get_def requireNonNull_def
      new_Optional_def init_eq)

text \<open>
  Claim C10. For every value that is neither null nor undefined and is falsy,
  \<open>of\<close> and \<open>ofNullable\<close> of both classes return an instance whose field is
  \<open>null\<close>: \<open>isPresent()\<close> is false and \<open>get()\<close> throws. The instance is newly
  constructed (its identity is the next unused one), so once the class is initialised it
  is not the \<open>EMPTY\<close> instance.
\<close>

theorem falsy_value_gives_absent:
  "\<not> nullish v \<Longrightarrow> \<not> truthy v \<Longrightarrow>
     Optional_of v s =
       (Inr (Optional (allocated s) JNull), s\<lparr>allocated := Suc (allocated s)\<rparr>) \<and>
     Optional_ofNullable v s = Optional_of v s \<and>
     Min_of v s =
       (Inr (Optional (allocated s) JNull), s\<lparr>allocated := Suc (allocated s)\<rparr>) \<and>
     Min_ofNullable v s = Min_of v s \<and>
     Optional_isPresent (Optional (allocated s) JNull) = False \<and>
     Optional_get (Optional (allocated s) JNull) =
       Inl (NoSuchElementException ''No value present.'') \<and>
     Min_isPresent (Optional (allocated s) JNull) = False \<and>
     Min_get (Optional (allocated s) JNull) =
       Inl (NoSuchElementException ''No value present.'') \<and>
     (initialised s \<longrightarrow> Optional (allocated s) JNull \<noteq> EMPTY)"
  by (simp add: Optional_of_def Optional_ofNullable_def Min_of_def Min_ofNullable_def
      requireNonNull_def new_Optional_def Min_new_Optional_def Optional_isPresent_def
      Optional_get_def Min_isPresent_def Min_get_def initialised_def EMPTY_eq)

theorem falsy_value_gives_absent_witness:
  "\<not> nullish (JNum (Num 0)) \<and> \<not> truthy (JNum (Num 0)) \<and> initialised init \<and>
   Optional_of (JNum (Num 0)) init = (Inr (Optional 1 JNull), \<lparr>allocated = 2, calls = []\<rparr>) \<and>
   Optional_ofNullable (JNum NaN) init =
     (Inr (Optional 1 JNull), \<lparr>allocated = 2, calls = []\<rparr>) \<and>
   Min_of (JStr '''') init = (Inr (Optional 1 JNull), \<lparr>allocated = 2, calls = []\<rparr>) \<and>
   Min_ofNullable (JBool False) init =
     (Inr (Optional 1 JNull), \<lparr>allocated = 2, calls = []\<rparr>) \<and>
   Optional_isPresent (Optional 1 JNull) = False \<and>
   Optional 1 JNull \<noteq> EMPTY"
  using falsy_value_gives_absent [of "JNum (Num 0)" init]
    falsy_value_gives_absent [of "JNum NaN" init]
    falsy_value_gives_absent [of "JStr ''''" init]
    falsy_value_gives_absent [of "JBool False" init]
    initialised_init
  by (simp add: init_eq)

text \<open>
  Claim C3. The claim: every absent instance that the factories and transformations hand
  out is the shared \<open>EMPTY\<close> instance. \<open>of(0)\<close> and a \<open>map\<close> whose function
  returns the empty string each construct a new instance that is absent.
\<close>

theorem second_absent_instance:
  "Optional_of (JNum (Num 0)) init = (Inr (Optional 1 JNull), \<lparr>allocated = 2, calls = []\<rparr>) \<and>
   Optional_isEmpty (Optional 1 JNull) \<and>
   Optional 1 JNull \<noteq> EMPTY \<and>
   Optional_map (Optional 1 (JNum (Num 5))) (Fn (\<lambda>args n. (Inr (JStr ''''), n)))
       \<lparr>allocated = 2, calls = []\<rparr> =
     (Inr (Optional 2 JNull), \<lparr>allocated = 3, calls = [[JNum (Num 5)]]\<rparr>) \<and>
   Optional_isEmpty (Optional 2 JNull) \<and>
   Optional 2 JNull \<noteq> EMPTY"
  by (simp add: Optional_of_def Optional_map_def Optional_ofNullable_def Optional_isEmpty_def
      requireNonNull_def new_Optional_def invoke_def init_eq EMPTY_eq)

section \<open>get and orElseThrow\<close>

text \<open>
  Claim C9. On an empty container \<open>get()\<close> fails with a NoSuchElementException whose
  message is "No value present." and \<open>orElseThrow()\<close> with one whose message is
  "No value present"; on a present container both return the held value.
\<close>

theorem get_orElseThrow_messages:
  "(Optional_isEmpty c \<longrightarrow>
      Optional_get c = Inl (NoSuchElementException ''No value present.'') \<and>
      Optional_orElseThrow c = Inl (NoSuchElementException ''No value present'')) \<and>
   (Optional_isPresent c \<longrightarrow>
      Optional_get c = Inr (val c) \<and> Optional_orElseThrow c = Inr (val c))"
  by (simp add: Optional_isEmpty_def Optional_isPresent_def Optional_get_def
      Optional_orElseThrow_def)

theorem get_orElseThrow_messages_witness:
  "Optional_isEmpty EMPTY \<and>
   Optional_get EMPTY = Inl (NoSuchElementException ''No value present.'') \<and>
   Optional_orElseThrow EMPTY = Inl (NoSuchElementException ''No value present'') \<and>
   Optional_isPresent (Optional 1 (JStr ''a'')) \<and>
   Optional_get (Optional 1 (JStr ''a'')) = Inr (JStr ''a'') \<and>
   Optional_orElseThrow (Optional 1 (JStr ''a'')) = Inr (JStr ''a'')"
  using get_orElseThrow_messages [of EMPTY]
    get_orElseThrow_messages [of "Optional 1 (JStr ''a'')"]
  by (simp add: EMPTY_eq Optional_isEmpty_def Optional_isPresent_def)

section \<open>map, filter and flatMap\<close>

text \<open>
  Claim C7. \<open>map\<close> on an empty container returns \<open>empty()\<close> and leaves the state
  as it is, whatever the callback (it is not invoked). On a present container it invokes
  the function once, on the held value, and returns \<open>ofNullable\<close> of the result; a
  null result gives \<open>empty()\<close>, not a failure. What the function throws is passed on.
\<close>

theorem map_contract:
  "(\<not> Optional_isPresent c \<longrightarrow> Optional_map c f s = (Inr Optional_empty, s)) \<and>
   (Optional_isPresent c \<longrightarrow> g [val c] (allocated s) = (Inr r, n) \<longrightarrow>
      Optional_map c (Fn g) s =
        Optional_ofNullable r \<lparr>allocated = n, calls = calls s @ [[val c]]\<rparr>) \<and>
   (Optional_isPresent c \<longrightarrow> g [val c] (allocated s) = (Inr JNull, n) \<longrightarrow>
      Optional_map c (Fn g) s =
        (Inr Optional_empty, \<lparr>allocated = n, calls = calls s @ [[val c]]\<rparr>)) \<and>
   (Optional_isPresent c \<longrightarrow> g [val c] (allocated s) = (Inl e, n) \<longrightarrow>
      Optional_map c (Fn g) s =
        (Inl e, \<lparr>allocated = n, calls = calls s @ [[val c]]\<rparr>))"
  by (simp add: Optional_map_def Optional_isPresent_def invoke_Fn Optional_ofNullable_def)

theorem map_contract_witness:
  "Optional_isPresent (Optional 1 (JNum (Num 5))) \<and>
   Optional_map (Optional 1 (JNum (Num 5))) (Fn (\<lambda>args n. (Inr (JNum (Num 10)), n)))
       \<lparr>allocated = 2, calls = []\<rparr> =
     Optional_ofNullable (JNum (Num 10)) \<lparr>allocated = 2, calls = [[JNum (Num 5)]]\<rparr> \<and>
   Optional_map (Optional 1 (JNum (Num 5))) (Fn (\<lambda>args n. (Inr JNull, n)))
       \<lparr>allocated = 2, calls = []\<rparr> =
     (Inr EMPTY, \<lparr>allocated = 2, calls = [[JNum (Num 5)]]\<rparr>) \<and>
   \<not> Optional_isPresent EMPTY \<and>
   Optional_map EMPTY (Fn (\<lambda>args n. (Inr (JNum (Num 10)), n))) init = (Inr EMPTY, init)"
  using
    map_contract [where c = "Optional 1 (JNum (Num 5))"
      and g = "\<lambda>args n. (Inr (JNum (Num 10)), n)"
      and s = "\<lparr>allocated = 2, calls = []\<rparr>" and r = "JNum (Num 10)" and n = 2]
    map_contract [where c = "Optional 1 (JNum (Num 5))"
      and g = "\<lambda>args n. (Inr JNull, n)"
      and s = "\<lparr>allocated = 2, calls = []\<rparr>" and r = JNull and n = 2]
    map_contract [where c = EMPTY and f = "Fn (\<lambda>args n. (Inr (JNum (Num 10)), n))"
      and s = init]
  by (simp add: Optional_isPresent_def Optional_empty_def Optional_ofNullable_def EMPTY_eq)

text \<open>
  Claim C8. \<open>filter\<close> fails with a NullPointerException on a null predicate. On an
  empty container it returns the container itself and does not invoke the predicate. On
  a present container it invokes the predicate once on the held value and returns the
  container itself when the result is true (truthy) and \<open>empty()\<close> when it is false.
\<close>

theorem filter_contract:
  "Optional_filter c CbNull s = (Inl NullPointerException, s) \<and>
   Optional_filter c CbUndefined s = (Inl NullPointerException, s) \<and>
   (\<not> Optional_isPresent c \<longrightarrow> Optional_filter c (Fn p) s = (Inr c, s)) \<and>
   (Optional_isPresent c \<longrightarrow> p [val c] (allocated s) = (Inr b, n) \<longrightarrow>
      Optional_filter c (Fn p) s =
        (Inr (if truthy b then c else Optional_empty),
         \<lparr>allocated = n, calls = calls s @ [[val c]]\<rparr>)) \<and>
   (Optional_isPresent c \<longrightarrow> p [val c] (allocated s) = (Inl e, n) \<longrightarrow>
      Optional_filter c (Fn p) s =
        (Inl e, \<lparr>allocated = n, calls = calls s @ [[val c]]\<rparr>))"
  by (simp add: Optional_filter_def invoke_Fn)

theorem filter_contract_witness:
  "Optional_isPresent (Optional 1 (JStr ''a'')) \<and>
   Optional_filter (Optional 1 (JStr ''a'')) (Fn (\<lambda>args n. (Inr (JBool True), n)))
       \<lparr>allocated = 2, calls = []\<rparr> =
     (Inr (Optional 1 (JStr ''a'')), \<lparr>allocated = 2, calls = [[JStr ''a'']]\<rparr>) \<and>
   Optional_filter (Optional 1 (JStr ''a'')) (Fn (\<lambda>args n. (Inr (JBool False), n)))
       \<lparr>allocated = 2, calls = []\<rparr> =
     (Inr EMPTY, \<lparr>allocated = 2, calls = [[JStr ''a'']]\<rparr>) \<and>
   \<not> Optional_isPresent EMPTY \<and>
   Optional_filter EMPTY (Fn (\<lambda>args n. (Inr (JBool True), n))) init = (Inr EMPTY, init)"
  using
    filter_contract [where c = "Optional 1 (JStr ''a'')"
      and p = "\<lambda>args n. (Inr (JBool True), n)"
      and s = "\<lparr>allocated = 2, calls = []\<rparr>" and b = "JBool True" and n = 2]
    filter_contract [where c = "Optional 1 (JStr ''a'')"
      and p = "\<lambda>args n. (Inr (JBool False), n)"
      and s = "\<lparr>allocated = 2, calls = []\<rparr>" and b = "JBool False" and n = 2]
    filter_contract [where c = EMPTY and p = "\<lambda>args n. (Inr (JBool True), n)" and s = init]
  by (simp add: Optional_isPresent_def Optional_empty_def EMPTY_eq)

text \<open>
  Claim C6. \<open>flatMap\<close> fails with a NullPointerException on a null mapper. On an
  empty container it returns \<open>empty()\<close> and does not invoke the mapper. On a present
  container it invokes the mapper once on the held value and returns exactly what the
  mapper returned, or fails with a NullPointerException when that is null.
\<close>

theorem flatMap_contract:
  "Optional_flatMap c CbNull s = (Inl NullPointerException, s) \<and>
   Optional_flatMap c CbUndefined s = (Inl NullPointerException, s) \<and>
   (\<not> Optional_isPresent c \<longrightarrow>
      Optional_flatMap c (Fn g) s = (Inr (JOptional Optional_empty), s)) \<and>
   (Optional_isPresent c \<longrightarrow> g [val c] (allocated s) = (Inr r, n) \<longrightarrow>
      Optional_flatMap c (Fn g) s =
        (if nullish r then Inl NullPointerException else Inr r,
         \<lparr>allocated = n, calls = calls s @ [[val c]]\<rparr>)) \<and>
   (Optional_isPresent c \<longrightarrow> g [val c] (allocated s) = (Inl e, n) \<longrightarrow>
      Optional_flatMap c (Fn g) s =
        (Inl e, \<lparr>allocated = n, calls = calls s @ [[val c]]\<rparr>))"
  by (simp add: Optional_flatMap_def invoke_Fn requireNonNull_def)

theorem flatMap_contract_witness:
  "Optional_isPresent (Optional 1 (JNum (Num 5))) \<and>
   Optional_flatMap (Optional 1 (JNum (Num 5)))
       (Fn (\<lambda>args n. (Inr (JOptional (Optional n (JNum (Num 10)))), Suc n)))
       \<lparr>allocated = 2, calls = []\<rparr> =
     (Inr (JOptional (Optional 2 (JNum (Num 10)))),
      \<lparr>allocated = 3, calls = [[JNum (Num 5)]]\<rparr>) \<and>
   Optional_flatMap (Optional 1 (JNum (Num 5))) (Fn (\<lambda>args n. (Inr JNull, n)))
       \<lparr>allocated = 2, calls = []\<rparr> =
     (Inl NullPointerException, \<lparr>allocated = 2, calls = [[JNum (Num 5)]]\<rparr>) \<and>
   Optional_flatMap (Optional 1 (JNum (Num 5))) (Fn (\<lambda>args n. (Inl (Thrown (JStr ''x'')), n)))
       \<lparr>allocated = 2, calls = []\<rparr> =
     (Inl (Thrown (JStr ''x'')), \<lparr>allocated = 2, calls = [[JNum (Num 5)]]\<rparr>) \<and>
   \<not> Optional_isPresent EMPTY \<and>
   Optional_flatMap EMPTY (Fn (\<lambda>args n. (Inr JNull, n))) init =
     (Inr (JOptional EMPTY), init)"
  using
    flatMap_contract [where c = "Optional 1 (JNum (Num 5))"
      and g = "\<lambda>args n. (Inr (JOptional (Optional n (JNum (Num 10)))), Suc n)"
      and s = "\<lparr>allocated = 2, calls = []\<rparr>"
      and r = "JOptional (Optional 2 (JNum (Num 10)))" and n = 3]
    flatMap_contract [where c = "Optional 1 (JNum (Num 5))"
      and g = "\<lambda>args n. (Inr JNull, n)"
      and s = "\<lparr>allocated = 2, calls = []\<rparr>" and r = JNull and n = 2]
    flatMap_contract [where c = "Optional 1 (JNum (Num 5))"
      and g = "\<lambda>args n. (Inl (Thrown (JStr ''x'')), n)"
      and s = "\<lparr>allocated = 2, calls = []\<rparr>" and e = "Thrown (JStr ''x'')" and n = 2]
    flatMap_contract [where c = EMPTY and g = "\<lambda>args n. (Inr JNull, n)" and s = init]
  by (simp add: Optional_isPresent_def Optional_empty_def EMPTY_eq)

section \<open>or\<close>

text \<open>
  Claim C1. The claim: a present container returns itself from \<open>or\<close> and does not
  invoke the supplier; the empty container invokes it once and returns its result. The
  method tests \<open>!this.isPresent()\<close> before \<open>return this\<close>: the present container
  \<open>of("a")\<close> invokes the supplier and returns the supplier's result, and the empty
  container returns itself with the supplier not invoked.
\<close>

theorem or_returns_wrong_branch:
  "Optional_of (JStr ''a'') init =
     (Inr (Optional 1 (JStr ''a'')), \<lparr>allocated = 2, calls = []\<rparr>) \<and>
   Optional_isPresent (Optional 1 (JStr ''a'')) \<and>
   Optional_or (Optional 1 (JStr ''a'')) (Fn (\<lambda>args n. (Inr (JOptional EMPTY), n)))
       \<lparr>allocated = 2, calls = []\<rparr> =
     (Inr (JOptional EMPTY), \<lparr>allocated = 2, calls = [[]]\<rparr>) \<and>
   \<not> Optional_isPresent EMPTY \<and>
   Optional_or EMPTY (Fn (\<lambda>args n. (Inr (JOptional (Optional 1 (JStr ''a''))), n)))
       \<lparr>allocated = 2, calls = []\<rparr> =
     (Inr (JOptional EMPTY), \<lparr>allocated = 2, calls = []\<rparr>)"
  by (simp add: Optional_of_def Optional_or_def Optional_isPresent_def requireNonNull_def
      new_Optional_def invoke_def init_eq EMPTY_eq)

section \<open>The minimal class against the richer one\<close>

text \<open>
  Claim C4. The claim: every operation of the minimal class gives the result or failure
  of the richer class's operation of that name. The minimal \<open>of\<close> does not call
  \<open>requireNonNull\<close>: at \<open>null\<close> and \<open>undefined\<close> it returns a new absent
  instance where the richer \<open>of\<close> fails with a NullPointerException.
\<close>

theorem minimal_of_accepts_null:
  "Min_of JNull Min_init = (Inr (Optional 1 JNull), \<lparr>allocated = 2, calls = []\<rparr>) \<and>
   Min_of JUndefined Min_init = (Inr (Optional 1 JNull), \<lparr>allocated = 2, calls = []\<rparr>) \<and>
   Optional_of JNull init = (Inl NullPointerException, init) \<and>
   Optional_of JUndefined init = (Inl NullPointerException, init)"
  by (simp add: Min_of_def Min_new_Optional_def Min_init_eq Optional_of_def requireNonNull_def)

end
